theory Spec2Isabelle
  imports Complex_Main
begin

section \<open>Data model\<close>

text \<open>
  The phase timeline of the simulation, its year and stability read-outs, the Sun's
  collapse and the planets' destroyed flag, embedded from \<^verbatim>\<open>types.ts\<close>,
  \<^verbatim>\<open>App.tsx\<close> and the scene component. A JavaScript \<^verbatim>\<open>number\<close> is
  modelled as a mathematical \<^typ>\<open>real\<close>: arithmetic is exact, and the values NaN and
  the infinities, like rounding, are outside the model. \<^verbatim>\<open>Date.now()\<close> is an
  integer count of milliseconds.
\<close>

datatype SimulationPhase = Stable | Approach | Interaction | Consumption | Void | Rebirth

text \<open>\<^verbatim>\<open>interface SimulationState\<close> of \<^verbatim>\<open>types.ts\<close>.\<close>

record SimulationState =
  energyDensity :: real
  volume :: real
  lambdaM :: real
  isPlaying :: bool
  phase :: SimulationPhase
  timeScale :: real
  year :: real

text \<open>The \<^verbatim>\<open>sceneState\<close> of \<^verbatim>\<open>SceneLogic\<close>: the phase and the time elapsed in it.\<close>

record SceneState =
  phase :: SimulationPhase
  timer :: real

section \<open>The sequencer: \<^verbatim>\<open>SceneLogic\<close>'s frame callback\<close>

text \<open>
  \<^verbatim>\<open>a || b\<close> on numbers: \<^verbatim>\<open>a\<close> unless it is falsy, and the only falsy real
  number is zero.
\<close>

definition jsOr :: "real \<Rightarrow> real \<Rightarrow> real" where
  "jsOr a b = (if a = 0 then b else a)"

text \<open>\<^verbatim>\<open>const dt = delta * (params.timeScale || 1)\<close>\<close>

definition frameDt :: "SimulationState \<Rightarrow> real \<Rightarrow> real" where
  "frameDt params delta = delta * jsOr (timeScale params) 1"

text \<open>
  The updater handed to \<^verbatim>\<open>setSceneState\<close>: the chain of \<^verbatim>\<open>if\<close>/\<^verbatim>\<open>else if\<close>
  in the order of the source.
\<close>

definition sceneUpdater :: "real \<Rightarrow> SceneState \<Rightarrow> SceneState" where
  "sceneUpdater dt prev =
     (let nextTimer = timer prev + dt in
      if SceneState.phase prev = Stable \<and> nextTimer > 5 then
        \<lparr>SceneState.phase = Approach, timer = 0\<rparr>
      else if SceneState.phase prev = Approach \<and> nextTimer > 10 then
        \<lparr>SceneState.phase = Interaction, timer = 0\<rparr>
      else if SceneState.phase prev = Interaction \<and> nextTimer > 20 then
        \<lparr>SceneState.phase = Consumption, timer = 0\<rparr>
      else if SceneState.phase prev = Consumption \<and> nextTimer > 10 then
        \<lparr>SceneState.phase = Void, timer = 0\<rparr>
      else if SceneState.phase prev = Void \<and> nextTimer > 5 then
        \<lparr>SceneState.phase = Rebirth, timer = 0\<rparr>
      else if SceneState.phase prev = Rebirth \<and> nextTimer > 15 then
        \<lparr>SceneState.phase = Stable, timer = 0\<rparr>
      else \<lparr>SceneState.phase = SceneState.phase prev, timer = nextTimer\<rparr>)"

text \<open>
  The \<^verbatim>\<open>switch\<close> that computes \<^verbatim>\<open>currentYear\<close> from the phase and the timer;
  \<^verbatim>\<open>Math.pow(t, 6)\<close> is the sixth power.
\<close>

fun currentYear :: "SimulationPhase \<Rightarrow> real \<Rightarrow> real" where
  "currentYear Stable t = 2025"
| "currentYear Approach t = 2025 + (t * 100)"
| "currentYear Interaction t = 3025 + (t * 2.5)"
| "currentYear Consumption t = 3075 + (t * 0.1)"
| "currentYear Void t = 0"
| "currentYear Rebirth t = t ^ 6"

text \<open>
  One call of the frame callback. It returns at once when the simulation is paused;
  otherwise it queues the state update and reports the phase and year of the state it
  was rendered with (the state before the update) through \<^verbatim>\<open>onUpdate\<close>. The result is
  the next scene state and the report, if one was made.
\<close>

definition sceneFrame ::
  "SimulationState \<Rightarrow> real \<Rightarrow> SceneState \<Rightarrow> SceneState \<times> (SimulationPhase \<times> real) option" where
  "sceneFrame params delta sceneState =
     (if \<not> isPlaying params then (sceneState, None)
      else (sceneUpdater (frameDt params delta) sceneState,
            Some (SceneState.phase sceneState,
                  currentYear (SceneState.phase sceneState) (timer sceneState))))"

text \<open>A run of frames, each with the parameters and the delta it is called with.\<close>

fun sceneFrames :: "(SimulationState \<times> real) list \<Rightarrow> SceneState \<Rightarrow> SceneState" where
  "sceneFrames [] sceneState = sceneState"
| "sceneFrames ((params, delta) # rest) sceneState =
     sceneFrames rest (fst (sceneFrame params delta sceneState))"

text \<open>The initial values of \<^verbatim>\<open>useState\<close> in \<^verbatim>\<open>App\<close> and in \<^verbatim>\<open>SceneLogic\<close>.\<close>

definition initialParams :: SimulationState where
  "initialParams =
     \<lparr>energyDensity = 20, volume = 36, lambdaM = 1.0, isPlaying = True,
      SimulationState.phase = Stable, timeScale = 1.0, SimulationState.year = 2025\<rparr>"

definition initialScene :: SceneState where
  "initialScene = \<lparr>SceneState.phase = Stable, timer = 0\<rparr>"

subsection \<open>The timeline as the specification words it\<close>

text \<open>The duration threshold of each phase, in seconds of scaled time.\<close>

fun spec_threshold :: "SimulationPhase \<Rightarrow> real" where
  "spec_threshold Stable = 5"
| "spec_threshold Approach = 10"
| "spec_threshold Interaction = 20"
| "spec_threshold Consumption = 10"
| "spec_threshold Void = 5"
| "spec_threshold Rebirth = 15"

text \<open>The fixed cyclic order of the phases.\<close>

fun spec_next :: "SimulationPhase \<Rightarrow> SimulationPhase" where
  "spec_next Stable = Approach"
| "spec_next Approach = Interaction"
| "spec_next Interaction = Consumption"
| "spec_next Consumption = Void"
| "spec_next Void = Rebirth"
| "spec_next Rebirth = Stable"

text \<open>One sequencer step as the specification describes it.\<close>

definition spec_step :: "real \<Rightarrow> SceneState \<Rightarrow> SceneState" where
  "spec_step dt s =
     (if timer s + dt > spec_threshold (SceneState.phase s)
      then \<lparr>SceneState.phase = spec_next (SceneState.phase s), timer = 0\<rparr>
      else \<lparr>SceneState.phase = SceneState.phase s, timer = timer s + dt\<rparr>)"

text \<open>The year of each phase as the specification gives it.\<close>

definition spec_year :: "SimulationPhase \<Rightarrow> real \<Rightarrow> real" where
  "spec_year ph t =
     (case ph of
        Stable \<Rightarrow> 2025
      | Approach \<Rightarrow> 2025 + 100 * t
      | Interaction \<Rightarrow> 3025 + 5 / 2 * t
      | Consumption \<Rightarrow> 3075 + t / 10
      | Void \<Rightarrow> 0
      | Rebirth \<Rightarrow> t * t * t * t * t * t)"

section \<open>The Sun and the accretion disk\<close>

text \<open>
  What the Sun's frame callback writes: the mesh scale (three components), the light
  intensity, the \<^verbatim>\<open>currentIntensity\<close> state, and the value passed to
  \<^verbatim>\<open>onConsume\<close>, which \<^verbatim>\<open>SceneLogic\<close> keeps as \<^verbatim>\<open>sunConsumed\<close>. The mesh
  position and the wobble offset are vectors that none of these values reads; they are
  left out, and the length of \<^verbatim>\<open>bhPosition\<close> is an argument.
\<close>

record SunState =
  meshScale :: "real \<times> real \<times> real"
  lightIntensity :: real
  currentIntensity :: real
  sunConsumed :: real

text \<open>
  The callback returns at once when either ref is null (\<open>refsCurrent\<close> is false); the
  phases void and rebirth match no branch.
\<close>

definition sunFrame :: "bool \<Rightarrow> SimulationPhase \<Rightarrow> real \<Rightarrow> real \<Rightarrow> SunState \<Rightarrow> SunState" where
  "sunFrame refsCurrent ph t bhDist sun =
     (if \<not> refsCurrent then sun
      else if ph = Interaction then
        (let dimFactor = min 1 (bhDist / 20);
             stretch = max 1 (15 / (bhDist + 0.1))
         in sun\<lparr>lightIntensity := 2 * dimFactor, currentIntensity := dimFactor,
                meshScale := (1, 1, 1 + (stretch * 0.2))\<rparr>)
      else if ph = Consumption then
        (let scl = max 0 (1 - (t / 5))
         in sun\<lparr>meshScale := (scl, scl, scl), lightIntensity := scl * 0.5,
                currentIntensity := scl, sunConsumed := 1 - scl\<rparr>)
      else if ph = Stable \<or> ph = Approach then
        sun\<lparr>meshScale := (1, 1, 1), lightIntensity := 2, currentIntensity := 1,
            sunConsumed := 0\<rparr>
      else sun)"

text \<open>
  The accretion disk of the intruder: drawn in interaction and consumption, a ring with
  inner radius 2 and outer radius \<^verbatim>\<open>2 + (sunConsumed * 4)\<close>.
\<close>

definition accretionDisk :: "SimulationPhase \<Rightarrow> real \<Rightarrow> (real \<times> real) option" where
  "accretionDisk ph consumed =
     (if ph = Interaction \<or> ph = Consumption then Some (2, 2 + (consumed * 4)) else None)"

text \<open>
  The Sun before its first frame: the scale and light intensity a three.js mesh and point
  light start with, and the initial values of the two pieces of state.
\<close>

definition initialSun :: SunState where
  "initialSun =
     \<lparr>meshScale = (1, 1, 1), lightIntensity = 1, currentIntensity = 1, sunConsumed = 0\<rparr>"

section \<open>The planets\<close>

text \<open>
  The fields of \<^verbatim>\<open>CosmicObject\<close> that the planet's frame callback reads; colour, mass
  and description are presentation only.
\<close>

record CosmicObject =
  name :: string
  radius :: real
  distance :: real
  angle :: real
  speed :: real

definition VENUS :: CosmicObject where
  "VENUS = \<lparr>name = ''Venus'', radius = 0.5, distance = 16, CosmicObject.angle = 2, speed = 1.2\<rparr>"

definition EARTH :: CosmicObject where
  "EARTH = \<lparr>name = ''Earth'', radius = 0.55, distance = 24, CosmicObject.angle = 4, speed = 1.0\<rparr>"

record OrbitState =
  dist :: real
  angle :: real
  destroyed :: bool

text \<open>The initial \<^verbatim>\<open>orbitState\<close> of a planet.\<close>

definition initialOrbit :: "CosmicObject \<Rightarrow> OrbitState" where
  "initialOrbit data =
     \<lparr>dist = distance data, OrbitState.angle = CosmicObject.angle data, destroyed = False\<rparr>"

text \<open>\<^verbatim>\<open>THREE.MathUtils.lerp(x, y, t)\<close>\<close>

definition lerp :: "real \<Rightarrow> real \<Rightarrow> real \<Rightarrow> real" where
  "lerp x y t = (1 - t) * x + t * y"

text \<open>
  The planet's frame callback on its \<^verbatim>\<open>orbitState\<close>. \<open>refCurrent\<close> says whether
  \<^verbatim>\<open>ref.current\<close> is set. The calls of \<^verbatim>\<open>setOrbitState\<close> are applied in the order
  they are queued: the reset under \<^verbatim>\<open>phase === 'stable' && orbitState.destroyed\<close>
  (\<open>s0\<close>), the destroyed mark of the interaction or the consumption branch (\<open>s1\<close>), and
  the final write of \<^verbatim>\<open>dist\<close> and \<^verbatim>\<open>angle\<close>, which are computed from the
  \<^verbatim>\<open>orbitState\<close> the callback closed over. The mesh position and scale, which the
  state never reads back, are left out.
\<close>

definition planetFrame ::
  "CosmicObject \<Rightarrow> SimulationPhase \<Rightarrow> real \<Rightarrow> real \<Rightarrow> bool \<Rightarrow> OrbitState \<Rightarrow> OrbitState" where
  "planetFrame data ph t delta refCurrent orbitState =
     (if \<not> refCurrent \<or> destroyed orbitState then orbitState
      else
        (let s0 = (if ph = Stable \<and> destroyed orbitState then initialOrbit data
                   else orbitState);
             spd = speed data * delta * 0.5;
             rebirthProgress = min 1 (t / 10);
             newDist =
               (if ph = Rebirth then lerp 0.1 (distance data) rebirthProgress
                else if ph = Interaction then dist orbitState
                else if ph = Consumption then lerp (dist orbitState) 0 (delta * 0.5)
                else dist orbitState);
             newAngle =
               (if ph = Rebirth
                then OrbitState.angle orbitState + spd
                       + (2.0 * (1.0 - rebirthProgress) + speed data * 0.5)
                else OrbitState.angle orbitState + spd);
             s1 = (if ph = Rebirth then s0
                   else if ph = Interaction then
                     (if name data = ''Venus'' \<and> t > 5 then s0\<lparr>destroyed := True\<rparr> else s0)
                   else if ph = Consumption then
                     (if newDist < 2 then s0\<lparr>destroyed := True\<rparr> else s0)
                   else s0)
         in s1\<lparr>dist := newDist, OrbitState.angle := newAngle\<rparr>))"

text \<open>
  The render: \<^verbatim>\<open>if (orbitState.destroyed || phase === 'void') return null\<close>. The group
  that carries the ref is mounted exactly when the planet is rendered.
\<close>

definition planetRendered :: "OrbitState \<Rightarrow> SimulationPhase \<Rightarrow> bool" where
  "planetRendered orbitState ph = (\<not> (destroyed orbitState \<or> ph = Void))"

text \<open>
  A run of frames of one planet, each with the phase, timer and delta it is called with;
  the ref of a frame is set when the planet was rendered with that phase and state.
\<close>

fun planetFrames ::
  "CosmicObject \<Rightarrow> (SimulationPhase \<times> real \<times> real) list \<Rightarrow> OrbitState \<Rightarrow> OrbitState" where
  "planetFrames data [] orbitState = orbitState"
| "planetFrames data ((ph, t, delta) # rest) orbitState =
     planetFrames data rest
       (planetFrame data ph t delta (planetRendered orbitState ph) orbitState)"

section \<open>The host: \<^verbatim>\<open>handleUpdate\<close> of \<^verbatim>\<open>App\<close>\<close>

record GraphPoint =
  year :: int
  stability :: real

text \<open>
  The state \<^verbatim>\<open>handleUpdate\<close> works on: the \<^verbatim>\<open>params\<close>, the \<^verbatim>\<open>graphData\<close> and
  the time of the last sample in \<^verbatim>\<open>lastUpdateRef\<close>.
\<close>

record AppState =
  params :: SimulationState
  graphData :: "GraphPoint list"
  lastUpdateRef :: int

definition initialApp :: AppState where
  "initialApp = \<lparr>params = initialParams, graphData = [], lastUpdateRef = 0\<rparr>"

text \<open>
  The stability score: 100, overwritten by each \<^verbatim>\<open>if\<close> whose phase matches, then
  clamped by \<^verbatim>\<open>Math.max(0, Math.min(100, stability))\<close>.
\<close>

definition stabilityScore :: "SimulationPhase \<Rightarrow> real \<Rightarrow> real" where
  "stabilityScore ph yr =
     (let s = 100;
          s = (if ph = Approach then 95 - ((yr - 2025) / 20) else s);
          s = (if ph = Interaction then 80 - ((yr - 3025) * 2) else s);
          s = (if ph = Consumption then 20 - ((yr - 3075) * 2) else s);
          s = (if ph = Void then 0 else s);
          s = (if ph = Rebirth then 100 else s)
      in max 0 (min 100 s))"

text \<open>
  The updater handed to \<^verbatim>\<open>setGraphData\<close>; \<^verbatim>\<open>newData.slice(newData.length - 50)\<close>
  keeps the last 50 elements.
\<close>

definition appendPoint :: "GraphPoint list \<Rightarrow> GraphPoint \<Rightarrow> GraphPoint list" where
  "appendPoint currData pt =
     (let newData = currData @ [pt]
      in if length newData > 50 then drop (length newData - 50) newData else newData)"

definition seedPoint :: GraphPoint where
  "seedPoint = \<lparr>GraphPoint.year = 0, stability = 100\<rparr>"

text \<open>
  \<^verbatim>\<open>handleUpdate(phase, year)\<close> at wall-clock time \<open>now\<close> (\<^verbatim>\<open>Date.now()\<close>). The two
  calls of \<^verbatim>\<open>setGraphData\<close> are applied in the order they are queued.
\<close>

definition handleUpdate :: "SimulationPhase \<Rightarrow> real \<Rightarrow> int \<Rightarrow> AppState \<Rightarrow> AppState" where
  "handleUpdate ph yr now app =
     (let prev = params app;
          stab = stabilityScore ph yr;
          sample = (now - lastUpdateRef app > 500 \<and> ph \<noteq> Stable);
          g1 = (if sample
                then appendPoint (graphData app) \<lparr>GraphPoint.year = \<lfloor>yr\<rfloor>, stability = stab\<rparr>
                else graphData app);
          last1 = (if sample then now else lastUpdateRef app);
          g2 = (if ph = Rebirth \<and> SimulationState.phase prev = Void then [seedPoint] else g1);
          params1 = (if SimulationState.phase prev \<noteq> ph \<or> \<bar>SimulationState.year prev - yr\<bar> > 0.1
                     then prev\<lparr>SimulationState.phase := ph, SimulationState.year := yr\<rparr>
                     else prev)
      in \<lparr>params = params1, graphData = g2, lastUpdateRef = last1\<rparr>)"

text \<open>A run of calls, each with its phase, its year and the time it happens at.\<close>

fun handleUpdates :: "(SimulationPhase \<times> real \<times> int) list \<Rightarrow> AppState \<Rightarrow> AppState" where
  "handleUpdates [] app = app"
| "handleUpdates ((ph, yr, now) # rest) app = handleUpdates rest (handleUpdate ph yr now app)"

text \<open>
  Two sample states of the host with a graph at capacity: one whose stored phase is
  approach, one whose stored phase is void.
\<close>

definition fullApp :: AppState where
  "fullApp = \<lparr>params = initialParams\<lparr>SimulationState.phase := Approach\<rparr>,
              graphData = replicate 50 seedPoint, lastUpdateRef = 1000\<rparr>"

definition voidApp :: AppState where
  "voidApp = \<lparr>params = initialParams\<lparr>SimulationState.phase := Void\<rparr>,
              graphData = replicate 50 seedPoint, lastUpdateRef = 1000\<rparr>"

section \<open>Properties of the sequencer\<close>

lemma sceneUpdater_spec_step: "sceneUpdater dt s = spec_step dt s"
  by (cases "SceneState.phase s") (simp_all add: sceneUpdater_def spec_step_def Let_def)

text \<open>
  C1. For every phase and every elapsed time and scaled delta (non-negative or not), one
  sequencer step adds the delta to the elapsed time and, exactly when the sum exceeds the
  threshold of the current phase (stable 5, approach 10, interaction 20, consumption 10,
  void 5, rebirth 15), moves to the next phase of the cycle stable, approach, interaction,
  consumption, void, rebirth, stable with the elapsed time reset to 0; otherwise the phase
  stays and the sum is kept. The phase after a step is the phase before it or its
  successor, so no phase is skipped or entered out of order.
\<close>

theorem sequencer_step:
  "sceneUpdater dt s =
     (if timer s + dt > spec_threshold (SceneState.phase s)
      then \<lparr>SceneState.phase = spec_next (SceneState.phase s), timer = 0\<rparr>
      else \<lparr>SceneState.phase = SceneState.phase s, timer = timer s + dt\<rparr>)
   \<and> (SceneState.phase (sceneUpdater dt s) = SceneState.phase s
      \<or> SceneState.phase (sceneUpdater dt s) = spec_next (SceneState.phase s))
   \<and> map spec_threshold [Stable, Approach, Interaction, Consumption, Void, Rebirth]
       = [5, 10, 20, 10, 5, 15]
   \<and> map spec_next [Stable, Approach, Interaction, Consumption, Void, Rebirth]
       = [Approach, Interaction, Consumption, Void, Rebirth, Stable]"
  by (simp add: sceneUpdater_spec_step spec_step_def)

text \<open>
  The scenario of the specification: stable at 4.9 s and a delta of 0.2 s; and a step
  that lands on the threshold exactly, which does not move on.
\<close>

theorem sequencer_step_witness:
  "sceneUpdater 0.2 \<lparr>SceneState.phase = Stable, timer = 4.9\<rparr>
     = \<lparr>SceneState.phase = Approach, timer = 0\<rparr>
   \<and> sceneUpdater 0.2 \<lparr>SceneState.phase = Stable, timer = 4.8\<rparr>
     = \<lparr>SceneState.phase = Stable, timer = 5\<rparr>"
  using sequencer_step [of "0.2" "\<lparr>SceneState.phase = Stable, timer = 4.9\<rparr>"]
        sequencer_step [of "0.2" "\<lparr>SceneState.phase = Stable, timer = 4.8\<rparr>"]
  by simp

text \<open>
  C2. For every phase and every elapsed time \<open>t\<close>, the year computed from them is the
  formula of the phase: 2025 in stable, 2025 + 100 t in approach, 3025 + 2.5 t in
  interaction, 3075 + 0.1 t in consumption, 0 in void and the sixth power of \<open>t\<close> in
  rebirth; and this is the year a playing frame reports, for the phase and timer of the
  state it was rendered with.
\<close>

theorem year_mapper:
  "currentYear ph t = spec_year ph t
   \<and> snd (sceneFrame (p\<lparr>isPlaying := True\<rparr>) delta s)
       = Some (SceneState.phase s, spec_year (SceneState.phase s) (timer s))"
  by (cases ph; cases "SceneState.phase s")
     (simp_all add: spec_year_def sceneFrame_def power_def eval_nat_numeral)

theorem year_mapper_witness:
  "currentYear Approach 4 = 2425 \<and> currentYear Interaction 4 = 3035
   \<and> currentYear Consumption 10 = 3076 \<and> currentYear Rebirth 2 = 64
   \<and> snd (sceneFrame initialParams 0.016 \<lparr>SceneState.phase = Approach, timer = 4\<rparr>)
       = Some (Approach, 2425)"
proof -
  have "initialParams\<lparr>isPlaying := True\<rparr> = initialParams"
    by (simp add: initialParams_def)
  then show ?thesis
    using year_mapper [of Approach 4 initialParams "0.016"
            "\<lparr>SceneState.phase = Approach, timer = 4\<rparr>"]
          year_mapper [of Interaction 4] year_mapper [of Consumption 10]
          year_mapper [of Rebirth 2]
    by (simp add: spec_year_def)
qed

text \<open>
  C9. The year of the rebirth phase does not decrease with the elapsed time: for
  \<open>0 \<le> t1 \<le> t2\<close> the year at \<open>t1\<close> is at most the year at \<open>t2\<close>.
\<close>

theorem rebirth_year_mono:
  "0 \<le> t1 \<Longrightarrow> t1 \<le> t2 \<Longrightarrow> currentYear Rebirth t1 \<le> currentYear Rebirth t2"
  by (simp add: power_mono)

theorem rebirth_year_mono_witness:
  "(0::real) \<le> 1 \<and> (1::real) \<le> 2 \<and> currentYear Rebirth 1 \<le> currentYear Rebirth 2
   \<and> currentYear Rebirth 1 = 1 \<and> currentYear Rebirth 2 = 64"
  using rebirth_year_mono [of 1 2] by simp

text \<open>
  C8. While the playing flag is false, a frame leaves the phase and the elapsed time as
  they are and reports nothing, whatever the delta and the time scale, and so does any
  run of such frames.
\<close>

theorem paused_frozen:
  "(\<forall>(p, d) \<in> set frames. \<not> isPlaying p) \<Longrightarrow>
     sceneFrames frames s = s \<and> (\<forall>(p, d) \<in> set frames. sceneFrame p d s = (s, None))"
  by (induction frames arbitrary: s) (auto simp: sceneFrame_def)

theorem paused_frozen_witness:
  "\<not> isPlaying (initialParams\<lparr>isPlaying := False\<rparr>)
   \<and> sceneFrames
        [(initialParams\<lparr>isPlaying := False\<rparr>, 0.5),
         (initialParams\<lparr>isPlaying := False, timeScale := 5\<rparr>, 100),
         (initialParams\<lparr>isPlaying := False\<rparr>, - 3)]
        \<lparr>SceneState.phase = Interaction, timer = 19.9\<rparr>
       = \<lparr>SceneState.phase = Interaction, timer = 19.9\<rparr>"
  using paused_frozen [of
      "[(initialParams\<lparr>isPlaying := False\<rparr>, 0.5),
        (initialParams\<lparr>isPlaying := False, timeScale := 5\<rparr>, 100),
        (initialParams\<lparr>isPlaying := False\<rparr>, - 3)]"
      "\<lparr>SceneState.phase = Interaction, timer = 19.9\<rparr>"]
  by simp

text \<open>
  C10. A time scale of exactly 0 does not freeze time: the advance of a frame is the
  delta times \<^verbatim>\<open>(timeScale || 1)\<close>, which is the delta itself (multiplier 1) when the
  time scale is 0 and the delta times the time scale for every other time scale; a frame
  with time scale 0 does what a frame with time scale 1 does. A playing frame steps the
  sequencer by exactly that advance: its elapsed time and phase are those of a step by
  the delta when the time scale is 0, and of a step by the delta times the time scale
  otherwise.
\<close>

theorem timescale_zero_runs_at_full_speed:
  "frameDt p delta = (if timeScale p = 0 then delta * 1 else delta * timeScale p)
   \<and> sceneFrame (p\<lparr>timeScale := 0\<rparr>) delta s = sceneFrame (p\<lparr>timeScale := 1\<rparr>) delta s
   \<and> fst (sceneFrame (p\<lparr>isPlaying := True\<rparr>) delta s)
       = sceneUpdater (if timeScale p = 0 then delta else delta * timeScale p) s
   \<and> timer (fst (sceneFrame (p\<lparr>isPlaying := True\<rparr>) delta s))
       = (if timeScale p = 0
          then (if timer s + delta > spec_threshold (SceneState.phase s) then 0
                else timer s + delta)
          else (if timer s + delta * timeScale p > spec_threshold (SceneState.phase s) then 0
                else timer s + delta * timeScale p))
   \<and> SceneState.phase (fst (sceneFrame (p\<lparr>isPlaying := True\<rparr>) delta s))
       = (if timeScale p = 0
          then (if timer s + delta > spec_threshold (SceneState.phase s)
                then spec_next (SceneState.phase s) else SceneState.phase s)
          else (if timer s + delta * timeScale p > spec_threshold (SceneState.phase s)
                then spec_next (SceneState.phase s) else SceneState.phase s))"
  by (simp add: frameDt_def jsOr_def sceneFrame_def sceneUpdater_spec_step spec_step_def)

theorem timescale_zero_runs_at_full_speed_witness:
  "frameDt (initialParams\<lparr>timeScale := 0\<rparr>) 0.5 = 0.5
   \<and> frameDt (initialParams\<lparr>timeScale := 2\<rparr>) 1 = 2
   \<and> fst (sceneFrame (initialParams\<lparr>timeScale := 0\<rparr>) 0.5 initialScene)
       = \<lparr>SceneState.phase = Stable, timer = 0.5\<rparr>
   \<and> timer (fst (sceneFrame (initialParams\<lparr>timeScale := 0\<rparr>) 0.5 initialScene)) = 0.5
   \<and> timer (fst (sceneFrame (initialParams\<lparr>timeScale := 2\<rparr>) 1 initialScene)) = 2
   \<and> fst (sceneFrame (initialParams\<lparr>timeScale := 2\<rparr>) 1
            \<lparr>SceneState.phase = Approach, timer = 8.5\<rparr>)
       = \<lparr>SceneState.phase = Interaction, timer = 0\<rparr>"
proof -
  have play:
    "initialParams\<lparr>timeScale := 0, isPlaying := True\<rparr> = initialParams\<lparr>timeScale := 0\<rparr>"
    "initialParams\<lparr>timeScale := 2, isPlaying := True\<rparr> = initialParams\<lparr>timeScale := 2\<rparr>"
    by (simp_all add: initialParams_def)
  have sc: "timer initialScene = 0" "SceneState.phase initialScene = Stable"
    "initialScene = \<lparr>SceneState.phase = Stable, timer = 0\<rparr>"
    by (simp_all add: initialScene_def)
  note zero = timescale_zero_runs_at_full_speed [of "initialParams\<lparr>timeScale := 0\<rparr>" "0.5" initialScene]
  note two = timescale_zero_runs_at_full_speed [of "initialParams\<lparr>timeScale := 2\<rparr>" 1 initialScene]
  note cross = timescale_zero_runs_at_full_speed [of "initialParams\<lparr>timeScale := 2\<rparr>" 1
      "\<lparr>SceneState.phase = Approach, timer = 8.5\<rparr>"]
  have a: "frameDt (initialParams\<lparr>timeScale := 0\<rparr>) 0.5 = 0.5"
    using zero [THEN conjunct1] by simp
  have b: "frameDt (initialParams\<lparr>timeScale := 2\<rparr>) 1 = 2"
    using two [THEN conjunct1] by simp
  have c: "fst (sceneFrame (initialParams\<lparr>timeScale := 0\<rparr>) 0.5 initialScene)
       = \<lparr>SceneState.phase = Stable, timer = 0.5\<rparr>"
    using zero [THEN conjunct2, THEN conjunct2, THEN conjunct1] play sc
    by (simp add: sceneUpdater_spec_step spec_step_def)
  have d: "timer (fst (sceneFrame (initialParams\<lparr>timeScale := 0\<rparr>) 0.5 initialScene)) = 0.5"
    using zero [THEN conjunct2, THEN conjunct2, THEN conjunct2, THEN conjunct1] play sc
    by simp
  have e: "timer (fst (sceneFrame (initialParams\<lparr>timeScale := 2\<rparr>) 1 initialScene)) = 2"
    using two [THEN conjunct2, THEN conjunct2, THEN conjunct2, THEN conjunct1] play sc
    by simp
  have f: "fst (sceneFrame (initialParams\<lparr>timeScale := 2\<rparr>) 1
            \<lparr>SceneState.phase = Approach, timer = 8.5\<rparr>)
       = \<lparr>SceneState.phase = Interaction, timer = 0\<rparr>"
    using cross [THEN conjunct2, THEN conjunct2, THEN conjunct1] play
    by (simp add: sceneUpdater_spec_step spec_step_def)
  from a b c d e f show ?thesis by blast
qed

text \<open>
  The delta is not clamped. With the initial parameters a delta of -1 is used as it is,
  and the elapsed time goes from 3 down to 2.
\<close>

theorem negative_delta_counterexample:
  "frameDt initialParams (- 1) = - 1
   \<and> frameDt initialParams (- 1) \<noteq> max 0 (- 1)
   \<and> fst (sceneFrame initialParams (- 1) \<lparr>SceneState.phase = Stable, timer = 3\<rparr>)
       = \<lparr>SceneState.phase = Stable, timer = 2\<rparr>
   \<and> timer (fst (sceneFrame initialParams (- 1) \<lparr>SceneState.phase = Stable, timer = 3\<rparr>))
       < timer \<lparr>SceneState.phase = Stable, timer = 3\<rparr>"
  by (simp add: frameDt_def jsOr_def initialParams_def sceneFrame_def sceneUpdater_def)

text \<open>
  C6, as the code has it. The sequencer adds the effective delta, the delta times
  \<^verbatim>\<open>(timeScale || 1)\<close>, without clamping it. While playing, a step that crosses the
  threshold of the phase resets the elapsed time to 0, and a step that does not leaves
  the elapsed time plus the effective delta: no less than before when the effective delta
  is non-negative, and less than before when it is negative.
\<close>

theorem elapsed_unclamped:
  "isPlaying p \<Longrightarrow>
     timer (fst (sceneFrame p delta s))
       = (if timer s + frameDt p delta > spec_threshold (SceneState.phase s) then 0
          else timer s + frameDt p delta)
     \<and> (0 \<le> frameDt p delta \<and> timer s + frameDt p delta \<le> spec_threshold (SceneState.phase s)
          \<longrightarrow> timer s \<le> timer (fst (sceneFrame p delta s)))
     \<and> (frameDt p delta < 0 \<and> timer s + frameDt p delta \<le> spec_threshold (SceneState.phase s)
          \<longrightarrow> timer (fst (sceneFrame p delta s)) < timer s)"
  by (cases "SceneState.phase s") (simp_all add: sceneFrame_def sceneUpdater_def)

theorem elapsed_unclamped_witness:
  "isPlaying initialParams
   \<and> frameDt initialParams 0.5 = 0.5
   \<and> timer (fst (sceneFrame initialParams 0.5 \<lparr>SceneState.phase = Approach, timer = 3\<rparr>)) = 3.5
   \<and> frameDt initialParams (- 0.5) = - 0.5
   \<and> timer (fst (sceneFrame initialParams (- 0.5) \<lparr>SceneState.phase = Approach, timer = 3\<rparr>)) = 2.5
   \<and> timer (fst (sceneFrame initialParams 0.5 \<lparr>SceneState.phase = Approach, timer = 9.8\<rparr>)) = 0"
proof -
  have playing: "isPlaying initialParams"
    by (simp add: initialParams_def)
  have dt: "frameDt initialParams 0.5 = 0.5" "frameDt initialParams (- 0.5) = - 0.5"
    by (simp_all add: frameDt_def jsOr_def initialParams_def)
  show ?thesis
    using playing dt
      elapsed_unclamped [OF playing, of "0.5" "\<lparr>SceneState.phase = Approach, timer = 3\<rparr>"]
      elapsed_unclamped [OF playing, of "- 0.5" "\<lparr>SceneState.phase = Approach, timer = 3\<rparr>"]
      elapsed_unclamped [OF playing, of "0.5" "\<lparr>SceneState.phase = Approach, timer = 9.8\<rparr>"]
    by simp
qed

section \<open>Properties of the stability graph\<close>

text \<open>
  C3. For every phase and every year, however large or negative, the stability score
  lies between 0 and 100.
\<close>

theorem stability_in_range:
  "0 \<le> stabilityScore ph yr \<and> stabilityScore ph yr \<le> 100"
  by (simp add: stabilityScore_def Let_def)

theorem stability_in_range_witness:
  "stabilityScore Interaction (- 1000000000) = 100
   \<and> stabilityScore Approach 1000000000000 = 0
   \<and> stabilityScore Consumption 3080 = 10
   \<and> 0 \<le> stabilityScore Consumption 3080 \<and> stabilityScore Consumption 3080 \<le> 100"
  using stability_in_range [of Consumption 3080]
  by (simp add: stabilityScore_def)

lemma length_appendPoint: "length (appendPoint g pt) \<le> 50"
  by (simp add: appendPoint_def Let_def)

lemma length_handleUpdate:
  "length (graphData app) \<le> 50 \<Longrightarrow> length (graphData (handleUpdate ph yr now app)) \<le> 50"
  by (simp add: handleUpdate_def Let_def length_appendPoint)

lemma length_handleUpdates:
  "length (graphData app) \<le> 50 \<Longrightarrow> length (graphData (handleUpdates calls app)) \<le> 50"
  by (induction calls arbitrary: app) (auto simp: length_handleUpdate)

lemma appendPoint_drop: "appendPoint g pt = drop (length g - 49) (g @ [pt])"
  by (simp add: appendPoint_def Let_def)

lemma graphData_handleUpdate:
  "graphData (handleUpdate ph yr now app)
     = (if ph = Rebirth \<and> SimulationState.phase (params app) = Void then [seedPoint]
        else if now - lastUpdateRef app > 500 \<and> ph \<noteq> Stable
        then appendPoint (graphData app)
               \<lparr>GraphPoint.year = \<lfloor>yr\<rfloor>, stability = stabilityScore ph yr\<rparr>
        else graphData app)"
  by (simp add: handleUpdate_def Let_def)

lemma lastUpdateRef_handleUpdate:
  "lastUpdateRef (handleUpdate ph yr now app)
     = (if now - lastUpdateRef app > 500 \<and> ph \<noteq> Stable then now else lastUpdateRef app)"
  by (simp add: handleUpdate_def Let_def)

lemma phase_handleUpdate:
  "SimulationState.phase (params (handleUpdate ph yr now app)) = ph"
  by (simp add: handleUpdate_def Let_def)

text \<open>
  C7. The graph never holds more than 50 points: not after any run of calls from the
  initial state, and a call keeps a graph of at most 50 points at most 50 long; a call at
  capacity that samples drops the oldest point and appends the new one. A call in the
  stable phase, or no more than 500 ms after the last sample, appends nothing: it leaves
  the graph as it is, unless it is the call that reseeds it. A call with phase rebirth
  while the stored phase is void replaces the graph by the seed point alone. A call
  samples exactly when its phase is not stable and more than 500 ms have passed since the
  recorded time of the last sample; a sample records the time of its call, and every call
  stores its phase. So a call no more than 500 ms after a call that sampled appends
  nothing, a rebirth call that follows a void call leaves the seed point alone, and a
  call that follows a call of another phase than void reseeds nothing.
\<close>

theorem graph_capped_throttled_reseeded:
  "length (graphData (handleUpdates calls initialApp)) \<le> 50
   \<and> (length (graphData app) \<le> 50 \<longrightarrow> length (graphData (handleUpdate ph yr now app)) \<le> 50)
   \<and> (ph = Stable \<or> now - lastUpdateRef app \<le> 500 \<longrightarrow>
        graphData (handleUpdate ph yr now app)
          = (if ph = Rebirth \<and> SimulationState.phase (params app) = Void
             then [seedPoint] else graphData app))
   \<and> (ph = Rebirth \<and> SimulationState.phase (params app) = Void \<longrightarrow>
        graphData (handleUpdate ph yr now app) = [seedPoint])
   \<and> (length (graphData app) = 50 \<and> ph \<noteq> Stable \<and> now - lastUpdateRef app > 500
        \<and> \<not> (ph = Rebirth \<and> SimulationState.phase (params app) = Void) \<longrightarrow>
        graphData (handleUpdate ph yr now app)
          = tl (graphData app) @ [\<lparr>GraphPoint.year = \<lfloor>yr\<rfloor>, stability = stabilityScore ph yr\<rparr>])
   \<and> graphData (handleUpdate ph yr now app)
       = (if ph = Rebirth \<and> SimulationState.phase (params app) = Void then [seedPoint]
          else if now - lastUpdateRef app > 500 \<and> ph \<noteq> Stable
          then drop (length (graphData app) - 49)
                 (graphData app
                    @ [\<lparr>GraphPoint.year = \<lfloor>yr\<rfloor>, stability = stabilityScore ph yr\<rparr>])
          else graphData app)
   \<and> lastUpdateRef (handleUpdate ph yr now app)
       = (if now - lastUpdateRef app > 500 \<and> ph \<noteq> Stable then now else lastUpdateRef app)
   \<and> SimulationState.phase (params (handleUpdate ph yr now app)) = ph
   \<and> (now - lastUpdateRef app > 500 \<and> ph \<noteq> Stable \<and> now2 - now \<le> 500 \<longrightarrow>
        graphData (handleUpdate ph2 yr2 now2 (handleUpdate ph yr now app))
          = (if ph2 = Rebirth \<and> ph = Void then [seedPoint]
             else graphData (handleUpdate ph yr now app)))
   \<and> graphData (handleUpdate Rebirth yr2 now2 (handleUpdate Void yr now app)) = [seedPoint]
   \<and> (ph \<noteq> Void \<and> (ph2 = Stable \<or> now2 - lastUpdateRef (handleUpdate ph yr now app) \<le> 500) \<longrightarrow>
        graphData (handleUpdate ph2 yr2 now2 (handleUpdate ph yr now app))
          = graphData (handleUpdate ph yr now app))"
proof -
  have "length (graphData initialApp) \<le> 50"
    by (simp add: initialApp_def)
  then have a: "length (graphData (handleUpdates calls initialApp)) \<le> 50"
    by (rule length_handleUpdates)
  have b: "length (graphData app) \<le> 50 \<longrightarrow>
      length (graphData (handleUpdate ph yr now app)) \<le> 50"
    by (simp add: length_handleUpdate)
  have c: "ph = Stable \<or> now - lastUpdateRef app \<le> 500 \<longrightarrow>
        graphData (handleUpdate ph yr now app)
          = (if ph = Rebirth \<and> SimulationState.phase (params app) = Void
             then [seedPoint] else graphData app)"
    by (auto simp: graphData_handleUpdate)
  have d: "ph = Rebirth \<and> SimulationState.phase (params app) = Void \<longrightarrow>
        graphData (handleUpdate ph yr now app) = [seedPoint]"
    by (simp add: graphData_handleUpdate)
  have e: "length (graphData app) = 50 \<and> ph \<noteq> Stable \<and> now - lastUpdateRef app > 500
        \<and> \<not> (ph = Rebirth \<and> SimulationState.phase (params app) = Void) \<longrightarrow>
        graphData (handleUpdate ph yr now app)
          = tl (graphData app) @ [\<lparr>GraphPoint.year = \<lfloor>yr\<rfloor>, stability = stabilityScore ph yr\<rparr>]"
    by (cases "graphData app") (auto simp: graphData_handleUpdate appendPoint_def)
  have f: "graphData (handleUpdate ph yr now app)
       = (if ph = Rebirth \<and> SimulationState.phase (params app) = Void then [seedPoint]
          else if now - lastUpdateRef app > 500 \<and> ph \<noteq> Stable
          then drop (length (graphData app) - 49)
                 (graphData app
                    @ [\<lparr>GraphPoint.year = \<lfloor>yr\<rfloor>, stability = stabilityScore ph yr\<rparr>])
          else graphData app)"
    by (simp only: graphData_handleUpdate appendPoint_drop)
  have g: "lastUpdateRef (handleUpdate ph yr now app)
       = (if now - lastUpdateRef app > 500 \<and> ph \<noteq> Stable then now else lastUpdateRef app)"
    by (rule lastUpdateRef_handleUpdate)
  have h: "SimulationState.phase (params (handleUpdate ph yr now app)) = ph"
    by (rule phase_handleUpdate)
  have i: "now - lastUpdateRef app > 500 \<and> ph \<noteq> Stable \<and> now2 - now \<le> 500 \<longrightarrow>
        graphData (handleUpdate ph2 yr2 now2 (handleUpdate ph yr now app))
          = (if ph2 = Rebirth \<and> ph = Void then [seedPoint]
             else graphData (handleUpdate ph yr now app))"
    by (simp add: graphData_handleUpdate [of ph2] lastUpdateRef_handleUpdate phase_handleUpdate)
  have j: "graphData (handleUpdate Rebirth yr2 now2 (handleUpdate Void yr now app)) = [seedPoint]"
    by (simp add: graphData_handleUpdate [of Rebirth] phase_handleUpdate)
  have k: "ph \<noteq> Void \<and> (ph2 = Stable \<or> now2 - lastUpdateRef (handleUpdate ph yr now app) \<le> 500) \<longrightarrow>
        graphData (handleUpdate ph2 yr2 now2 (handleUpdate ph yr now app))
          = graphData (handleUpdate ph yr now app)"
    by (auto simp: graphData_handleUpdate [of ph2] phase_handleUpdate)
  from a b c d e f g h i j k show ?thesis by blast
qed

theorem graph_capped_throttled_reseeded_witness:
  "length (graphData (handleUpdates [(Approach, 2100, 600), (Approach, 2200, 1200)] initialApp))
     \<le> 50
   \<and> length (graphData fullApp) = 50
   \<and> length (graphData (handleUpdate Approach 2100 1600 fullApp)) \<le> 50
   \<and> graphData (handleUpdate Approach 2100 1600 fullApp)
       = tl (graphData fullApp) @ [\<lparr>GraphPoint.year = 2100, stability = 91.25\<rparr>]
   \<and> graphData (handleUpdate Approach 2100 1500 fullApp) = graphData fullApp
   \<and> graphData (handleUpdate Stable 2025 9999 fullApp) = graphData fullApp
   \<and> graphData (handleUpdate Rebirth 0 1600 voidApp) = [seedPoint]
   \<and> graphData (handleUpdate Rebirth 0 1200 voidApp) = [seedPoint]
   \<and> lastUpdateRef (handleUpdate Approach 2100 1600 fullApp) = 1600
   \<and> lastUpdateRef (handleUpdate Approach 2100 1500 fullApp) = 1000
   \<and> SimulationState.phase (params (handleUpdate Interaction 3030 1600 fullApp)) = Interaction
   \<and> graphData (handleUpdate Approach 2110 1700 (handleUpdate Approach 2100 1600 fullApp))
       = tl (graphData fullApp) @ [\<lparr>GraphPoint.year = 2100, stability = 91.25\<rparr>]
   \<and> graphData (handleUpdate Rebirth 0 3000 (handleUpdate Void 0 2000 fullApp)) = [seedPoint]"
proof -
  have len: "length (graphData fullApp) = 50"
    by (simp add: fullApp_def)
  have st: "stabilityScore Approach 2100 = 91.25"
    by (simp add: stabilityScore_def)
  have f: "lastUpdateRef fullApp = 1000" "SimulationState.phase (params fullApp) = Approach"
    by (simp_all add: fullApp_def)
  have v: "lastUpdateRef voidApp = 1000" "SimulationState.phase (params voidApp) = Void"
    by (simp_all add: voidApp_def)
  note sampled = graph_capped_throttled_reseeded
      [of "[(Approach, 2100, 600), (Approach, 2200, 1200)]" fullApp Approach 2100 1600
        1700 Approach 2110]
  note early = graph_capped_throttled_reseeded [of "[]" fullApp Approach 2100 1500 0 Stable 0]
  note stable = graph_capped_throttled_reseeded [of "[]" fullApp Stable 2025 9999 0 Stable 0]
  note stored = graph_capped_throttled_reseeded
      [of "[]" fullApp Interaction 3030 1600 0 Stable 0]
  note seeded = graph_capped_throttled_reseeded [of "[]" voidApp Rebirth 0 1600 0 Stable 0]
  note seeded_early = graph_capped_throttled_reseeded
      [of "[]" voidApp Rebirth 0 1200 0 Stable 0]
  note transition = graph_capped_throttled_reseeded [of "[]" fullApp Void 0 2000 3000 Stable 0]
  have a: "length (graphData
      (handleUpdates [(Approach, 2100, 600), (Approach, 2200, 1200)] initialApp)) \<le> 50"
    using sampled by blast
  have b: "length (graphData (handleUpdate Approach 2100 1600 fullApp)) \<le> 50"
    using sampled len by simp
  have c: "graphData (handleUpdate Approach 2100 1600 fullApp)
       = tl (graphData fullApp) @ [\<lparr>GraphPoint.year = 2100, stability = 91.25\<rparr>]"
    using sampled len st f by simp
  have d: "graphData (handleUpdate Approach 2100 1500 fullApp) = graphData fullApp"
    using early f by simp
  have e: "graphData (handleUpdate Stable 2025 9999 fullApp) = graphData fullApp"
    using stable by simp
  have g: "graphData (handleUpdate Rebirth 0 1600 voidApp) = [seedPoint]"
    using seeded v by simp
  have h: "graphData (handleUpdate Rebirth 0 1200 voidApp) = [seedPoint]"
    using seeded_early v by simp
  have i: "lastUpdateRef (handleUpdate Approach 2100 1600 fullApp) = 1600"
    using sampled f by simp
  have j: "lastUpdateRef (handleUpdate Approach 2100 1500 fullApp) = 1000"
    using early f by simp
  have k: "SimulationState.phase (params (handleUpdate Interaction 3030 1600 fullApp))
      = Interaction"
    using stored by blast
  have l: "graphData (handleUpdate Approach 2110 1700 (handleUpdate Approach 2100 1600 fullApp))
       = graphData (handleUpdate Approach 2100 1600 fullApp)"
    using sampled f by simp
  have m: "graphData (handleUpdate Rebirth 0 3000 (handleUpdate Void 0 2000 fullApp))
      = [seedPoint]"
    using transition by blast
  from a len b c d e g h i j k l m show ?thesis by simp
qed

section \<open>Properties of the Sun's collapse\<close>

text \<open>
  C5. In the consumption phase the Sun's scale at elapsed time \<open>t\<close> is
  \<open>max 0 (1 - t / 5)\<close> on all three axes: 1 at \<open>t = 0\<close>, 0 at \<open>t = 5\<close>, and never
  larger at a later time. The consumed fraction handed on is 1 minus the scale, so 1 at
  \<open>t = 5\<close>. The accretion disk has inner radius 2 and outer radius 2 plus 4 times the
  consumed fraction, so 6 when the fraction is 1.
\<close>

theorem sun_consumption:
  "meshScale (sunFrame True Consumption t d sun)
     = (max 0 (1 - t / 5), max 0 (1 - t / 5), max 0 (1 - t / 5))
   \<and> sunConsumed (sunFrame True Consumption t d sun) = 1 - max 0 (1 - t / 5)
   \<and> meshScale (sunFrame True Consumption 0 d sun) = (1, 1, 1)
   \<and> meshScale (sunFrame True Consumption 5 d sun) = (0, 0, 0)
   \<and> sunConsumed (sunFrame True Consumption 5 d sun) = 1
   \<and> accretionDisk Consumption c = Some (2, 2 + 4 * c)
   \<and> accretionDisk Consumption (sunConsumed (sunFrame True Consumption 5 d sun)) = Some (2, 6)
   \<and> (t1 \<le> t2 \<longrightarrow>
        fst (meshScale (sunFrame True Consumption t2 d sun))
          \<le> fst (meshScale (sunFrame True Consumption t1 d sun)))"
  by (simp add: sunFrame_def accretionDisk_def Let_def max_def)

theorem sun_consumption_witness:
  "(1::real) \<le> 4
   \<and> meshScale (sunFrame True Consumption 2.5 8 initialSun) = (0.5, 0.5, 0.5)
   \<and> sunConsumed (sunFrame True Consumption 2.5 8 initialSun) = 0.5
   \<and> accretionDisk Consumption 0.5 = Some (2, 4)
   \<and> meshScale (sunFrame True Consumption 5 8 initialSun) = (0, 0, 0)
   \<and> fst (meshScale (sunFrame True Consumption 4 8 initialSun))
       \<le> fst (meshScale (sunFrame True Consumption 1 8 initialSun))"
  using sun_consumption [of "2.5" 8 initialSun "0.5" 1 4]
  by simp

section \<open>Properties of the destroyed flag\<close>

text \<open>
  The frame callback of a planet returns before anything else when the planet is
  destroyed, in every phase, stable included: the reset under
  \<^verbatim>\<open>phase === 'stable' && orbitState.destroyed\<close> is behind that return.
\<close>

lemma planetFrame_destroyed_id:
  "destroyed os \<Longrightarrow> planetFrame data ph t delta m os = os"
  by (simp add: planetFrame_def)

lemma planetFrames_destroyed_id:
  "destroyed os \<Longrightarrow> planetFrames data frames os = os"
  by (induction frames arbitrary: os) (auto simp: planetFrame_destroyed_id)

text \<open>
  Venus can be marked destroyed outside the interaction phase. A frame of the consumption
  phase marks it when the decayed radius is below 2: from the initial orbit with a delta
  of 2 s at once. Such a Venus is reachable: at time scale 5, a frame of 3.1 s takes the
  sequencer from interaction at 5 s straight to consumption, the planet's frame of that
  step sees interaction at 5 s, which is not beyond 5, and the next frame sees
  consumption.
\<close>

theorem venus_consumption_counterexample:
  "\<not> destroyed (initialOrbit VENUS)
   \<and> destroyed (planetFrame VENUS Consumption 0 2 True (initialOrbit VENUS))
   \<and> fst (sceneFrame (initialParams\<lparr>timeScale := 5\<rparr>) 3.1
            \<lparr>SceneState.phase = Interaction, timer = 5\<rparr>)
       = \<lparr>SceneState.phase = Consumption, timer = 0\<rparr>
   \<and> \<not> destroyed (planetFrames VENUS [(Interaction, 5, 3.1)] (initialOrbit VENUS))
   \<and> destroyed
       (planetFrames VENUS [(Interaction, 5, 3.1), (Consumption, 0, 2)] (initialOrbit VENUS))"
  by (simp add: initialOrbit_def VENUS_def planetFrame_def planetRendered_def lerp_def
      sceneFrame_def sceneUpdater_def frameDt_def jsOr_def initialParams_def Let_def)

text \<open>
  C4, as the code has it. A frame marks a planet that is not yet destroyed exactly when
  the phase is interaction, the planet is Venus and the elapsed time exceeds 5 s, or the
  phase is consumption and the decayed radius \<^verbatim>\<open>lerp(dist, 0, delta * 0.5)\<close> is below 2.
  A destroyed planet is not rendered, and its flag stays set through every run of frames
  whose phases are not stable.
\<close>

theorem venus_destroyed_flag:
  "(\<not> destroyed os \<longrightarrow>
      (destroyed (planetFrame data ph t delta (planetRendered os ph) os) \<longleftrightarrow>
         (ph = Interaction \<and> name data = ''Venus'' \<and> t > 5)
         \<or> (ph = Consumption \<and> lerp (dist os) 0 (delta * 0.5) < 2)))
   \<and> (destroyed os \<longrightarrow> \<not> planetRendered os ph)
   \<and> (destroyed os \<and> (\<forall>(ph', t', delta') \<in> set frames. ph' \<noteq> Stable) \<longrightarrow>
        destroyed (planetFrames data frames os))"
proof -
  have a: "\<not> destroyed os \<longrightarrow>
      (destroyed (planetFrame data ph t delta (planetRendered os ph) os) \<longleftrightarrow>
         (ph = Interaction \<and> name data = ''Venus'' \<and> t > 5)
         \<or> (ph = Consumption \<and> lerp (dist os) 0 (delta * 0.5) < 2))"
    by (cases ph) (simp_all add: planetFrame_def planetRendered_def Let_def)
  have b: "destroyed os \<longrightarrow> \<not> planetRendered os ph"
    by (simp add: planetRendered_def)
  have c: "destroyed os \<and> (\<forall>(ph', t', delta') \<in> set frames. ph' \<noteq> Stable) \<longrightarrow>
        destroyed (planetFrames data frames os)"
    by (simp add: planetFrames_destroyed_id)
  from a b c show ?thesis by blast
qed

theorem venus_destroyed_flag_witness:
  "\<not> destroyed (initialOrbit VENUS)
   \<and> destroyed (planetFrame VENUS Interaction 6 0.016
        (planetRendered (initialOrbit VENUS) Interaction) (initialOrbit VENUS))
   \<and> \<not> destroyed (planetFrame VENUS Interaction 5 0.016
        (planetRendered (initialOrbit VENUS) Interaction) (initialOrbit VENUS))
   \<and> \<not> destroyed (planetFrame EARTH Interaction 6 0.016
        (planetRendered (initialOrbit EARTH) Interaction) (initialOrbit EARTH))
   \<and> destroyed ((initialOrbit VENUS)\<lparr>destroyed := True\<rparr>)
   \<and> \<not> planetRendered ((initialOrbit VENUS)\<lparr>destroyed := True\<rparr>) Rebirth
   \<and> destroyed
       (planetFrames VENUS
          [(Interaction, 7, 0.016), (Consumption, 1, 0.016), (Void, 2, 0.016),
           (Rebirth, 3, 0.016)]
          ((initialOrbit VENUS)\<lparr>destroyed := True\<rparr>))"
  using venus_destroyed_flag [of "initialOrbit VENUS" VENUS Interaction 6 "0.016" "[]"]
        venus_destroyed_flag [of "initialOrbit VENUS" VENUS Interaction 5 "0.016" "[]"]
        venus_destroyed_flag [of "initialOrbit EARTH" EARTH Interaction 6 "0.016" "[]"]
        venus_destroyed_flag [of "(initialOrbit VENUS)\<lparr>destroyed := True\<rparr>" VENUS Rebirth 0 0
           "[(Interaction, 7, 0.016), (Consumption, 1, 0.016), (Void, 2, 0.016),
             (Rebirth, 3, 0.016)]"]
  by (simp add: initialOrbit_def VENUS_def EARTH_def)

end
